theory Spec2Isabelle
  imports Main
begin

section \<open>Data model\<close>

text \<open>
  The backend keeps its data in database tables (Django's \<open>auth_user\<close>, \<open>auth_group\<close>,
  the many-to-many table \<open>auth_user_groups\<close>, \<open>user_profiles\<close>, the token blacklist) and
  in a key/value cache. A table is a list of rows looked up by key with \<open>find\<close>; the
  many-to-many tables are functions from the user's id to a set. Times are seconds.
\<close>

type_synonym permission = string
type_synonym timestamp = nat

record user =
  user_id :: nat
  username :: string
  password :: string
  is_active :: bool
  is_superuser :: bool
  last_login :: "timestamp option"

record group =
  group_id :: nat
  group_name :: string
  group_permissions :: "permission set"

text \<open>\<open>UserProfile(BaseModel)\<close> of \<open>apps/users/domain/models.py\<close>: the one-to-one
  extension of a user, with the soft-delete marker of \<open>SoftDeleteModel\<close>.\<close>

record user_profile =
  profile_user :: nat
  phone :: "string option"
  department :: "string option"
  employee_id :: "string option"
  profile_notes :: "string option"
  deleted_at :: "timestamp option"

text \<open>\<open>request.user\<close> and the \<open>self.user\<close> of a service: absent (\<open>None\<close>), Django's
  \<open>AnonymousUser\<close>, or a user object.\<close>

datatype principal = AnonymousUser | User user

fun is_authenticated :: "principal \<Rightarrow> bool" where
  "is_authenticated AnonymousUser = False"
| "is_authenticated (User u) = True"

fun principal_is_superuser :: "principal \<Rightarrow> bool" where
  "principal_is_superuser AnonymousUser = False"
| "principal_is_superuser (User u) = is_superuser u"

text \<open>\<open>self.user.id\<close>: an anonymous user's id is \<open>None\<close>.\<close>

fun principal_id :: "principal option \<Rightarrow> nat option" where
  "principal_id None = None"
| "principal_id (Some AnonymousUser) = None"
| "principal_id (Some (User u)) = Some (user_id u)"

record state =
  users :: "user list"
  groups :: "group list"
  user_groups :: "nat \<Rightarrow> nat set"
  user_permissions :: "nat \<Rightarrow> permission set"
  profiles :: "user_profile list"
  blacklist :: "nat set"
  cache :: "nat \<rightharpoonup> permission set"

text \<open>The cache key \<open>user_permissions:{user_id}\<close> is the same in
  \<open>apps/core/permissions.py\<close> and in \<open>UserPermissionCache._make_key\<close> and is one-to-one
  in the id, so an entry is keyed by the id. An entry's time to live only ever removes
  it: every property below holds from any cache content.\<close>

datatype error =
    AuthenticationFailed string
  | ValidationError string
  | PermissionDenied string
  | DoesNotExist

section \<open>Permission resolver\<close>

definition get_user :: "state \<Rightarrow> nat \<Rightarrow> user option" where
  "get_user st uid = find (\<lambda>u. user_id u = uid) (users st)"

definition get_group :: "state \<Rightarrow> nat \<Rightarrow> group option" where
  "get_group st gid = find (\<lambda>g. group_id g = gid) (groups st)"

text \<open>Modelled from the spec: \<open>User.get_all_permissions\<close> is the framework's and not in
  \<open>src/\<close>. A principal's effective permissions are the union of its direct grants and
  all grants of the roles it belongs to.\<close>

definition get_all_permissions :: "state \<Rightarrow> nat \<Rightarrow> permission set" where
  "get_all_permissions st uid =
     user_permissions st uid \<union>
     (\<Union>gid \<in> user_groups st uid.
        case get_group st gid of None \<Rightarrow> {} | Some g \<Rightarrow> group_permissions g)"

subsection \<open>\<open>apps/core/permissions.py\<close>\<close>

fun get_user_permissions_cached :: "state \<Rightarrow> principal option \<Rightarrow> permission set \<times> state" where
  "get_user_permissions_cached st None = ({}, st)"
| "get_user_permissions_cached st (Some AnonymousUser) = ({}, st)"
| "get_user_permissions_cached st (Some (User u)) =
     (case cache st (user_id u) of
        Some cached_perms \<Rightarrow> (cached_perms, st)
      | None \<Rightarrow>
          (let perms = get_all_permissions st (user_id u)
           in (perms, st\<lparr>cache := (cache st)(user_id u \<mapsto> perms)\<rparr>)))"

definition invalidate_user_permissions_cache :: "state \<Rightarrow> nat \<Rightarrow> state" where
  "invalidate_user_permissions_cache st uid = st\<lparr>cache := (cache st)(uid := None)\<rparr>"

definition has_permission :: "state \<Rightarrow> principal option \<Rightarrow> permission \<Rightarrow> bool \<times> state" where
  "has_permission st usr permission_codename =
     (let (perms, st') = get_user_permissions_cached st usr
      in (permission_codename \<in> perms, st'))"

text \<open>The decorator \<open>require_permission\<close>: the wrapped method body \<open>func\<close> runs on the
  state the permission check leaves. Both services set \<open>self.user\<close> in \<open>__init__\<close>, so
  the decorator's \<open>AttributeError\<close> for a service without that attribute does not arise.\<close>

definition require_permission ::
  "permission \<Rightarrow> principal option \<Rightarrow> state \<Rightarrow> (state \<Rightarrow> (error + 'a) \<times> state) \<Rightarrow> (error + 'a) \<times> state"
where
  "require_permission permission_codename usr st func =
     (let (ok, st') = has_permission st usr permission_codename
      in if \<not> ok then (Inl (PermissionDenied (''No tienes permiso: '' @ permission_codename)), st')
         else func st')"

text \<open>What a view declares for one action: a single permission name or a list.\<close>

datatype action_perms = Single permission | Many "permission list"

record view =
  required_permissions :: "(string \<rightharpoonup> action_perms) option"
  action :: "string option"

text \<open>\<open>HasPermission.has_permission\<close>. \<open>not action\<close> holds for an absent action and
  for the empty name; a view without the attribute \<open>required_permissions\<close> has the
  empty dictionary.\<close>

definition HasPermission_has_permission ::
  "state \<Rightarrow> principal option \<Rightarrow> view \<Rightarrow> bool \<times> state"
where
  "HasPermission_has_permission st request_user v =
     (case request_user of
        None \<Rightarrow> (False, st)
      | Some p \<Rightarrow>
          if \<not> is_authenticated p then (False, st)
          else if principal_is_superuser p then (True, st)
          else
            (let required_perms =
                   (case required_permissions v of None \<Rightarrow> Map.empty | Some m \<Rightarrow> m)
             in case action v of
                  None \<Rightarrow> (True, st)
                | Some a \<Rightarrow>
                    if a = [] then (True, st)
                    else
                      (case required_perms a of
                         None \<Rightarrow> (True, st)
                       | Some entry \<Rightarrow>
                           (let (user_perms, st') = get_user_permissions_cached st request_user;
                                action_perms =
                                  (case entry of Single s \<Rightarrow> [s] | Many ps \<Rightarrow> ps)
                            in (list_all (\<lambda>perm. perm \<in> user_perms) action_perms, st')))))"

text \<open>The entry a view declares for its current action, and the set of permissions
  an entry names.\<close>

definition declared_entry :: "view \<Rightarrow> action_perms option" where
  "declared_entry v =
     (case action v of
        None \<Rightarrow> None
      | Some a \<Rightarrow> (case required_permissions v of None \<Rightarrow> None | Some m \<Rightarrow> m a))"

fun required_set :: "action_perms \<Rightarrow> permission set" where
  "required_set (Single s) = {s}"
| "required_set (Many ps) = set ps"

subsection \<open>\<open>apps/users/infraestructure/cache.py\<close>\<close>

definition UserPermissionCache_get :: "state \<Rightarrow> nat \<Rightarrow> permission set option" where
  "UserPermissionCache_get st uid = cache st uid"

definition UserPermissionCache_set :: "state \<Rightarrow> nat \<Rightarrow> permission set \<Rightarrow> state" where
  "UserPermissionCache_set st uid perms = st\<lparr>cache := (cache st)(uid \<mapsto> perms)\<rparr>"

definition UserPermissionCache_delete :: "state \<Rightarrow> nat \<Rightarrow> state" where
  "UserPermissionCache_delete st uid = st\<lparr>cache := (cache st)(uid := None)\<rparr>"

text \<open>Cache-aside: the cached entry if there is one; otherwise the user is read from
  the store, its permissions are computed and cached; an id with no user gives the
  empty set (the \<open>except User.DoesNotExist\<close> branch), with nothing cached.\<close>

definition get_or_compute :: "state \<Rightarrow> nat \<Rightarrow> permission set \<times> state" where
  "get_or_compute st uid =
     (case UserPermissionCache_get st uid of
        Some cached \<Rightarrow> (cached, st)
      | None \<Rightarrow>
          (case get_user st uid of
             Some usr \<Rightarrow>
               (let perms = get_all_permissions st (user_id usr)
                in (perms, UserPermissionCache_set st uid perms))
           | None \<Rightarrow> ({}, st)))"

section \<open>Account lifecycle: \<open>apps/users/application/services.py\<close>\<close>

text \<open>The validated data of an update: a key that is absent is \<open>None\<close>.\<close>

record update_data =
  vd_email :: "string option"
  vd_is_active :: "bool option"
  vd_group_ids :: "nat list option"

text \<open>\<open>create_user\<close> checks the plan's limit and hands the validated data back for
  the serializer to create the user from; it creates nothing itself.\<close>

definition limite_de_usuarios :: string where
  "limite_de_usuarios =
     ''L'' @ [CHR 0xC3, CHR 0xAD] @ ''mite de usuarios alcanzado (10). '' @
     ''Contacta soporte para ampliar tu plan.''"

definition create_user :: "principal option \<Rightarrow> state \<Rightarrow> 'a \<Rightarrow> (error + 'a) \<times> state" where
  "create_user self_user st validated_data =
     require_permission ''auth.add_user'' self_user st (\<lambda>st.
       let max_users = (10::nat);
           active_users = length (filter is_active (users st))
       in if active_users \<ge> max_users
          then (Inl (ValidationError limite_de_usuarios), st)
          else (Inr validated_data, st))"

definition update_user ::
  "principal option \<Rightarrow> state \<Rightarrow> user \<Rightarrow> update_data \<Rightarrow> (error + update_data) \<times> state"
where
  "update_user self_user st user_instance validated_data =
     require_permission ''auth.change_user'' self_user st (\<lambda>st.
       if Some (user_id user_instance) = principal_id self_user \<and>
          vd_is_active validated_data = Some False
       then (Inl (PermissionDenied ''No puedes desactivar tu propia cuenta''), st)
       else if Some (user_id user_instance) = principal_id self_user \<and>
               vd_group_ids validated_data \<noteq> None \<and>
               (let current_groups = user_groups st (user_id user_instance);
                    new_groups =
                      set (case vd_group_ids validated_data of None \<Rightarrow> [] | Some ids \<Rightarrow> ids)
                in case find (\<lambda>g. group_name g = ''Administradores'') (groups st) of
                     None \<Rightarrow> False
                   | Some admin_group \<Rightarrow>
                       group_id admin_group \<in> current_groups \<and>
                       group_id admin_group \<notin> new_groups)
       then (Inl (PermissionDenied ''No puedes remover tu propio rol de Administrador''), st)
       else (Inr validated_data, st))"

text \<open>The \<open>post_save\<close> signal \<open>create_user_profile\<close> of \<open>apps/users/domain/models.py\<close>:
  a user row that is created gets its profile row.\<close>

definition create_user_profile :: "state \<Rightarrow> user \<Rightarrow> state" where
  "create_user_profile st inst =
     st\<lparr>profiles := profiles st @
          [\<lparr>profile_user = user_id inst, phone = None, department = None,
            employee_id = None, profile_notes = None, deleted_at = None\<rparr>]\<rparr>"

text \<open>\<open>user.save()\<close>: the row with the object's id is rewritten from the object, or
  inserted when there is none (and then the signal creates the profile). The second
  signal, \<open>save_user_profile\<close>, saves the profile as it is.\<close>

definition User_save :: "state \<Rightarrow> user \<Rightarrow> state" where
  "User_save st inst =
     (case get_user st (user_id inst) of
        Some row \<Rightarrow>
          st\<lparr>users := map (\<lambda>r. if user_id r = user_id inst then inst else r) (users st)\<rparr>
      | None \<Rightarrow> create_user_profile (st\<lparr>users := users st @ [inst]\<rparr>) inst)"

text \<open>\<open>hasattr(user_instance, 'profile')\<close>: the profile row of the user, if any.\<close>

definition get_profile :: "state \<Rightarrow> nat \<Rightarrow> user_profile option" where
  "get_profile st uid = find (\<lambda>p. profile_user p = uid) (profiles st)"

text \<open>\<open>SoftDeleteModel.delete\<close> of \<open>apps/core/models.py\<close> on a user's profile: only
  \<open>deleted_at\<close> is written.\<close>

definition SoftDeleteModel_delete :: "timestamp \<Rightarrow> state \<Rightarrow> nat \<Rightarrow> state" where
  "SoftDeleteModel_delete now st uid =
     st\<lparr>profiles :=
          map (\<lambda>p. if profile_user p = uid then p\<lparr>deleted_at := Some now\<rparr> else p) (profiles st)\<rparr>"

text \<open>\<open>delete_user\<close> runs in a transaction; after its self-check nothing in it
  raises, so there is nothing to roll back.\<close>

definition delete_user ::
  "principal option \<Rightarrow> timestamp \<Rightarrow> state \<Rightarrow> user \<Rightarrow> (error + unit) \<times> state"
where
  "delete_user self_user now st user_instance =
     require_permission ''auth.delete_user'' self_user st (\<lambda>st.
       if Some (user_id user_instance) = principal_id self_user
       then (Inl (PermissionDenied ''No puedes eliminar tu propia cuenta''), st)
       else
         (let st1 = User_save st (user_instance\<lparr>is_active := False\<rparr>);
              st2 = (case get_profile st1 (user_id user_instance) of
                       Some prof \<Rightarrow> SoftDeleteModel_delete now st1 (user_id user_instance)
                     | None \<Rightarrow> st1);
              st3 = invalidate_user_permissions_cache st2 (user_id user_instance)
          in (Inr (), st3)))"

subsection \<open>\<open>UserPermissionService\<close>\<close>

definition assign_role ::
  "principal option \<Rightarrow> state \<Rightarrow> user \<Rightarrow> nat \<Rightarrow> (error + unit) \<times> state"
where
  "assign_role self_user st user_instance gid =
     require_permission ''auth.change_user'' self_user st (\<lambda>st.
       case get_group st gid of
         None \<Rightarrow> (Inl DoesNotExist, st)
       | Some grp \<Rightarrow>
           (let uid = user_id user_instance;
                st1 = st\<lparr>user_groups :=
                        (user_groups st)(uid := insert (group_id grp) (user_groups st uid))\<rparr>;
                st2 = invalidate_user_permissions_cache st1 uid
            in (Inr (), st2)))"

definition remove_role ::
  "principal option \<Rightarrow> state \<Rightarrow> user \<Rightarrow> nat \<Rightarrow> (error + unit) \<times> state"
where
  "remove_role self_user st user_instance gid =
     require_permission ''auth.change_user'' self_user st (\<lambda>st.
       case get_group st gid of
         None \<Rightarrow> (Inl DoesNotExist, st)
       | Some grp \<Rightarrow>
           (let uid = user_id user_instance;
                st1 = st\<lparr>user_groups :=
                        (user_groups st)(uid := user_groups st uid - {group_id grp})\<rparr>;
                st2 = invalidate_user_permissions_cache st1 uid
            in (Inr (), st2)))"

section \<open>Tokens and login: \<open>apps/auth/application/services.py\<close>\<close>

text \<open>A presented refresh token: whether its signature verifies, and its claims
  (principal id, expiry, unique token id). An access token carries the principal id and
  its expiry.\<close>

record refresh_jwt =
  signature_valid :: bool
  token_user_id :: nat
  expiry :: timestamp
  jti :: nat

record access_jwt =
  access_user_id :: nat
  access_expiry :: timestamp

datatype token_error = TokenError string

text \<open>\<open>SIMPLE_JWT\<close> of \<open>config/settings/base.py\<close>: lifetimes of two and five minutes,
  rotation and blacklisting after rotation switched on.\<close>

definition ACCESS_TOKEN_LIFETIME :: nat where
  "ACCESS_TOKEN_LIFETIME = 120"

definition REFRESH_TOKEN_LIFETIME :: nat where
  "REFRESH_TOKEN_LIFETIME = 300"

definition ROTATE_REFRESH_TOKENS :: bool where
  "ROTATE_REFRESH_TOKENS = True"

definition BLACKLIST_AFTER_ROTATION :: bool where
  "BLACKLIST_AFTER_ROTATION = True"

text \<open>Modelled from the spec: the token library's \<open>RefreshToken(token)\<close> is not in
  \<open>src/\<close>. A token fails as invalid if its signature is invalid or it has expired (the
  expiry is compared with the current time, with no grace window), and as revoked if its
  id is in the revocation set; the signature and expiry check comes first.\<close>

definition RefreshToken :: "state \<Rightarrow> timestamp \<Rightarrow> refresh_jwt \<Rightarrow> token_error + refresh_jwt" where
  "RefreshToken st now tok =
     (if \<not> signature_valid tok \<or> expiry tok \<le> now
      then Inl (TokenError ''Token is invalid or expired'')
      else if jti tok \<in> blacklist st then Inl (TokenError ''Token is blacklisted'')
      else Inr tok)"

text \<open>Modelled from the spec: \<open>RefreshToken.for_user\<close>, the \<open>access_token\<close> property and
  \<open>blacklist()\<close> of the token library. Issued tokens are signed and embed the principal
  id and the expiry; the token id is the fresh one drawn for the call; revoking inserts
  the token id into the revocation set.\<close>

definition for_user :: "timestamp \<Rightarrow> nat \<Rightarrow> user \<Rightarrow> refresh_jwt" where
  "for_user now new_jti usr =
     \<lparr>signature_valid = True, token_user_id = user_id usr,
      expiry = now + REFRESH_TOKEN_LIFETIME, jti = new_jti\<rparr>"

definition access_token :: "timestamp \<Rightarrow> refresh_jwt \<Rightarrow> access_jwt" where
  "access_token now tok =
     \<lparr>access_user_id = token_user_id tok, access_expiry = now + ACCESS_TOKEN_LIFETIME\<rparr>"

definition blacklist_token :: "state \<Rightarrow> refresh_jwt \<Rightarrow> state" where
  "blacklist_token st tok = st\<lparr>blacklist := insert (jti tok) (blacklist st)\<rparr>"

text \<open>Modelled from the spec: the framework's \<open>authenticate\<close> is not in \<open>src/\<close>. It
  gives no user if there is no matching active principal or the hash does not match.
  The settings name no \<open>AUTHENTICATION_BACKENDS\<close>, so the framework's default backend
  \<open>ModelBackend\<close> is the one in force, and it rejects an inactive user; the backend
  \<open>AllowAllUsersModelBackend\<close> would let one through. Verifying a password against a
  stored hash is the parameter \<open>check_password\<close>.\<close>

datatype auth_backend = ModelBackend | AllowAllUsersModelBackend

fun user_can_authenticate :: "auth_backend \<Rightarrow> user \<Rightarrow> bool" where
  "user_can_authenticate ModelBackend usr = is_active usr"
| "user_can_authenticate AllowAllUsersModelBackend usr = True"

definition get_by_natural_key :: "state \<Rightarrow> string \<Rightarrow> user option" where
  "get_by_natural_key st uname = find (\<lambda>u. username u = uname) (users st)"

definition authenticate ::
  "auth_backend \<Rightarrow> (string \<Rightarrow> string \<Rightarrow> bool) \<Rightarrow> state \<Rightarrow> string \<Rightarrow> string \<Rightarrow> user option"
where
  "authenticate backend check_password st uname pw =
     (case get_by_natural_key st uname of
        None \<Rightarrow> None
      | Some usr \<Rightarrow>
          if check_password pw (password usr) \<and> user_can_authenticate backend usr
          then Some usr else None)"

text \<open>The dictionaries the service methods return.\<close>

datatype response_value = AccessValue access_jwt | RefreshValue refresh_jwt | UserValue user

type_synonym response = "string \<rightharpoonup> response_value"

definition credenciales_invalidas :: string where
  "credenciales_invalidas = ''Credenciales inv'' @ [CHR 0xC3, CHR 0xA1] @ ''lidas''"

definition token_invalido :: string where
  "token_invalido = ''Token inv'' @ [CHR 0xC3, CHR 0xA1] @ ''lido: ''"

text \<open>\<open>AuthService.login\<close>. \<open>user.save(update_fields=['last_login'])\<close> writes that one
  column of the user's row.\<close>

definition login ::
  "auth_backend \<Rightarrow> (string \<Rightarrow> string \<Rightarrow> bool) \<Rightarrow> timestamp \<Rightarrow> nat \<Rightarrow> state \<Rightarrow> string \<Rightarrow> string
     \<Rightarrow> (error + response) \<times> state"
where
  "login backend check_password now new_jti st uname pw =
     (case authenticate backend check_password st uname pw of
        None \<Rightarrow> (Inl (AuthenticationFailed credenciales_invalidas), st)
      | Some usr \<Rightarrow>
          if \<not> is_active usr then (Inl (AuthenticationFailed ''Usuario inactivo''), st)
          else
            (let refresh = for_user now new_jti usr;
                 usr' = usr\<lparr>last_login := Some now\<rparr>;
                 st' = st\<lparr>users :=
                         map (\<lambda>r. if user_id r = user_id usr then r\<lparr>last_login := Some now\<rparr> else r)
                             (users st)\<rparr>
             in (Inr [''access'' \<mapsto> AccessValue (access_token now refresh),
                      ''refresh'' \<mapsto> RefreshValue refresh,
                      ''user'' \<mapsto> UserValue usr'], st')))"

text \<open>\<open>AuthService.refresh_token\<close>: the token is verified and a new access token is
  returned under the key \<open>access\<close>; nothing is written.\<close>

definition refresh_token :: "state \<Rightarrow> timestamp \<Rightarrow> refresh_jwt \<Rightarrow> (error + response) \<times> state" where
  "refresh_token st now tok =
     (case RefreshToken st now tok of
        Inr refresh \<Rightarrow> (Inr [''access'' \<mapsto> AccessValue (access_token now refresh)], st)
      | Inl (TokenError e) \<Rightarrow> (Inl (ValidationError (token_invalido @ e)), st))"

text \<open>\<open>AuthService.logout\<close>. The blacklist application is installed
  (\<open>INSTALLED_APPS\<close> of \<open>config/settings/base.py\<close>), so \<open>token.blacklist()\<close> exists and the
  \<open>AttributeError\<close> branch is not taken.\<close>

definition logout :: "state \<Rightarrow> timestamp \<Rightarrow> refresh_jwt \<Rightarrow> (error + unit) \<times> state" where
  "logout st now tok =
     (case RefreshToken st now tok of
        Inr token \<Rightarrow> (Inr (), blacklist_token st token)
      | Inl (TokenError e) \<Rightarrow> (Inl (ValidationError (token_invalido @ e)), st))"

text \<open>A later history of calls to the authentication service, each at its time.\<close>

datatype auth_call =
    Login string string nat
  | Refresh refresh_jwt
  | Logout refresh_jwt

fun auth_step ::
  "auth_backend \<Rightarrow> (string \<Rightarrow> string \<Rightarrow> bool) \<Rightarrow> state \<Rightarrow> timestamp \<times> auth_call \<Rightarrow> state"
where
  "auth_step backend check_password st (now, Login uname pw new_jti) =
     snd (login backend check_password now new_jti st uname pw)"
| "auth_step backend check_password st (now, Refresh tok) = snd (refresh_token st now tok)"
| "auth_step backend check_password st (now, Logout tok) = snd (logout st now tok)"

definition auth_run ::
  "auth_backend \<Rightarrow> (string \<Rightarrow> string \<Rightarrow> bool) \<Rightarrow> state \<Rightarrow> (timestamp \<times> auth_call) list \<Rightarrow> state"
where
  "auth_run backend check_password st calls = foldl (auth_step backend check_password) st calls"

section \<open>A small installation\<close>

text \<open>The roles of \<open>seed_roles.py\<close> with a superuser (whom \<open>createsuperuser_auto.py\<close>
  puts into the administrators' group), an administrator, an ordinary user and a
  deactivated user; a stored hash is \<open>h:\<close> followed by the password.\<close>

definition root :: user where
  "root = \<lparr>user_id = 1, username = ''root'', password = ''h:rootpw'',
           is_active = True, is_superuser = True, last_login = None\<rparr>"

definition admin :: user where
  "admin = \<lparr>user_id = 2, username = ''admin'', password = ''h:admin123'',
            is_active = True, is_superuser = False, last_login = None\<rparr>"

definition alice :: user where
  "alice = \<lparr>user_id = 3, username = ''alice'', password = ''h:alicepw'',
            is_active = True, is_superuser = False, last_login = None\<rparr>"

definition bob :: user where
  "bob = \<lparr>user_id = 4, username = ''bob'', password = ''h:bobpw'',
          is_active = False, is_superuser = False, last_login = None\<rparr>"

definition Administradores :: group where
  "Administradores =
     \<lparr>group_id = 1, group_name = ''Administradores'',
      group_permissions =
        {''auth.view_user'', ''auth.add_user'', ''auth.change_user'', ''auth.delete_user''}\<rparr>"

definition Operadores :: group where
  "Operadores =
     \<lparr>group_id = 2, group_name = ''Operadores'',
      group_permissions = {''auth.view_user'', ''auth.add_user'', ''auth.change_user''}\<rparr>"

definition Usuarios :: group where
  "Usuarios = \<lparr>group_id = 3, group_name = ''Usuarios'', group_permissions = {''auth.view_user''}\<rparr>"

definition new_profile :: "nat \<Rightarrow> user_profile" where
  "new_profile uid =
     \<lparr>profile_user = uid, phone = None, department = None, employee_id = None,
      profile_notes = None, deleted_at = None\<rparr>"

definition demo :: state where
  "demo =
     \<lparr>users = [root, admin, alice, bob],
      groups = [Administradores, Operadores, Usuarios],
      user_groups =
        (\<lambda>uid. if uid = 1 then {1} else if uid = 2 then {1} else if uid = 3 then {3} else {}),
      user_permissions = (\<lambda>uid. {}),
      profiles = [new_profile 1, new_profile 2, new_profile 3, new_profile 4],
      blacklist = {},
      cache = Map.empty\<rparr>"

definition demo_check_password :: "string \<Rightarrow> string \<Rightarrow> bool" where
  "demo_check_password raw encoded = (encoded = ''h:'' @ raw)"

text \<open>The same installation with alice's permissions already cached, and with a
  cache entry left under an id that has no user row.\<close>

definition demo_cached :: state where
  "demo_cached = demo\<lparr>cache := [3 \<mapsto> {''auth.view_user''}]\<rparr>"

definition demo_orphan :: state where
  "demo_orphan = demo\<lparr>cache := [9 \<mapsto> {''auth.view_user''}]\<rparr>"

text \<open>The view set of \<open>apps/users/api/views.py\<close> with the permissions it requires per action.\<close>

definition UserViewSet_permissions :: "string \<rightharpoonup> action_perms" where
  "UserViewSet_permissions =
     [''list'' \<mapsto> Many [''auth.view_user''],
      ''retrieve'' \<mapsto> Many [''auth.view_user''],
      ''create'' \<mapsto> Many [''auth.add_user''],
      ''update'' \<mapsto> Many [''auth.change_user''],
      ''partial_update'' \<mapsto> Many [''auth.change_user''],
      ''destroy'' \<mapsto> Many [''auth.delete_user''],
      ''me'' \<mapsto> Many [],
      ''change_password'' \<mapsto> Many []]"

definition UserViewSet :: "string \<Rightarrow> view" where
  "UserViewSet act = \<lparr>required_permissions = Some UserViewSet_permissions, action = Some act\<rparr>"

text \<open>Two updates: one that deactivates the account, one that leaves only the
  operators' role.\<close>

definition deactivate :: update_data where
  "deactivate = \<lparr>vd_email = None, vd_is_active = Some False, vd_group_ids = None\<rparr>"

definition keep_operadores_only :: update_data where
  "keep_operadores_only = \<lparr>vd_email = None, vd_is_active = None, vd_group_ids = Some [2]\<rparr>"

text \<open>The installation grown to ten active users, the limit of the plan.\<close>

definition staff :: "nat \<Rightarrow> user" where
  "staff n = \<lparr>user_id = n, username = ''staff'' @ replicate n (CHR ''+''), password = ''h:staffpw'',
              is_active = True, is_superuser = False, last_login = None\<rparr>"

definition demo_full :: state where
  "demo_full = demo\<lparr>users := users demo @ map staff [10, 11, 12, 13, 14, 15, 16]\<rparr>"

text \<open>Two refresh tokens issued to alice at time 0, a token whose signature does not
  verify, and a later history of calls.\<close>

definition alice_token :: refresh_jwt where
  "alice_token = for_user 0 7 alice"

definition alice_other_token :: refresh_jwt where
  "alice_other_token = for_user 0 8 alice"

definition forged_token :: refresh_jwt where
  "forged_token = \<lparr>signature_valid = False, token_user_id = 3, expiry = 300, jti = 9\<rparr>"

definition later_calls :: "(timestamp \<times> auth_call) list" where
  "later_calls =
     [(20, Refresh alice_token), (30, Login ''alice'' ''alicepw'' 11),
      (40, Logout alice_other_token), (45, Refresh alice_token)]"

section \<open>Evaluation and frame lemmas\<close>

lemmas demo_defs =
  demo_def demo_cached_def demo_orphan_def root_def admin_def alice_def bob_def Administradores_def Operadores_def
  Usuarios_def new_profile_def demo_check_password_def UserViewSet_def
  UserViewSet_permissions_def deactivate_def keep_operadores_only_def demo_full_def staff_def

lemmas resolver_defs =
  get_all_permissions_def get_group_def get_user_def has_permission_def
  require_permission_def invalidate_user_permissions_cache_def

subsection \<open>Frame lemmas\<close>

lemma list_all_mem_subset: "list_all (\<lambda>x. x \<in> A) xs = (set xs \<subseteq> A)"
  by (induction xs) auto

lemma get_user_permissions_cached_frame:
  "snd (get_user_permissions_cached st usr) =
     st\<lparr>cache := cache (snd (get_user_permissions_cached st usr))\<rparr>"
  by (cases "(st, usr)" rule: get_user_permissions_cached.cases)
     (auto simp: Let_def split: option.splits)

lemma has_permission_frame:
  "snd (has_permission st usr p) = st\<lparr>cache := cache (snd (has_permission st usr p))\<rparr>"
  using get_user_permissions_cached_frame [of st usr]
  by (simp add: has_permission_def case_prod_beta)

lemma has_permission_fst:
  "fst (has_permission st usr p) = (p \<in> fst (get_user_permissions_cached st usr))"
  by (simp add: has_permission_def case_prod_beta)

lemma require_permission_denied:
  "\<not> fst (has_permission st usr p) \<Longrightarrow>
     require_permission p usr st f =
       (Inl (PermissionDenied (''No tienes permiso: '' @ p)), snd (has_permission st usr p))"
  by (simp add: require_permission_def case_prod_beta)

lemma require_permission_granted:
  "fst (has_permission st usr p) \<Longrightarrow>
     require_permission p usr st f = f (snd (has_permission st usr p))"
  by (simp add: require_permission_def case_prod_beta)

lemma has_permission_authenticated:
  "fst (has_permission st usr p) \<Longrightarrow> \<exists>u. usr = Some (User u)"
  by (cases "(st, usr)" rule: get_user_permissions_cached.cases)
     (auto simp: has_permission_def)

lemma find_Some_holds: "find Q xs = Some x \<Longrightarrow> Q x"
  by (induction xs) (auto split: if_splits)

lemma get_group_id: "get_group st gid = Some grp \<Longrightarrow> group_id grp = gid"
  unfolding get_group_def by (rule find_Some_holds [where Q = "\<lambda>g. group_id g = gid"])

lemma get_user_id: "get_user st uid = Some usr \<Longrightarrow> user_id usr = uid"
  unfolding get_user_def by (rule find_Some_holds [where Q = "\<lambda>u. user_id u = uid"])

lemma assign_role_success:
  assumes "assign_role self_user st P gid = (Inr (), st')"
  shows "\<exists>c grp. get_group st gid = Some grp \<and>
           st' = st\<lparr>user_groups := (user_groups st)(user_id P := insert gid (user_groups st (user_id P))),
                    cache := c(user_id P := None)\<rparr>"
proof -
  let ?st1 = "snd (has_permission st self_user ''auth.change_user'')"
  obtain c where c: "?st1 = st\<lparr>cache := c\<rparr>"
    using has_permission_frame [of st self_user "''auth.change_user''"] by blast
  have granted: "fst (has_permission st self_user ''auth.change_user'')"
    using assms
    by (cases "fst (has_permission st self_user ''auth.change_user'')")
       (simp_all add: assign_role_def require_permission_denied)
  obtain grp where grp: "get_group st gid = Some grp"
    using assms granted c
    by (cases "get_group st gid")
       (simp_all add: assign_role_def require_permission_granted get_group_def)
  have "st' = st\<lparr>user_groups := (user_groups st)(user_id P := insert gid (user_groups st (user_id P))),
                 cache := c(user_id P := None)\<rparr>"
    using assms granted c grp get_group_id [OF grp]
    by (simp add: assign_role_def require_permission_granted get_group_def
                  invalidate_user_permissions_cache_def Let_def)
  with grp show ?thesis by blast
qed

lemma remove_role_success:
  assumes "remove_role self_user st P gid = (Inr (), st')"
  shows "\<exists>c grp. get_group st gid = Some grp \<and>
           st' = st\<lparr>user_groups := (user_groups st)(user_id P := user_groups st (user_id P) - {gid}),
                    cache := c(user_id P := None)\<rparr>"
proof -
  let ?st1 = "snd (has_permission st self_user ''auth.change_user'')"
  obtain c where c: "?st1 = st\<lparr>cache := c\<rparr>"
    using has_permission_frame [of st self_user "''auth.change_user''"] by blast
  have granted: "fst (has_permission st self_user ''auth.change_user'')"
    using assms
    by (cases "fst (has_permission st self_user ''auth.change_user'')")
       (simp_all add: remove_role_def require_permission_denied)
  obtain grp where grp: "get_group st gid = Some grp"
    using assms granted c
    by (cases "get_group st gid")
       (simp_all add: remove_role_def require_permission_granted get_group_def)
  have "st' = st\<lparr>user_groups := (user_groups st)(user_id P := user_groups st (user_id P) - {gid}),
                 cache := c(user_id P := None)\<rparr>"
    using assms granted c grp get_group_id [OF grp]
    by (simp add: remove_role_def require_permission_granted get_group_def
                  invalidate_user_permissions_cache_def Let_def)
  with grp show ?thesis by blast
qed

lemma get_or_compute_miss:
  "cache st uid = None \<Longrightarrow> get_user st uid = Some row \<Longrightarrow>
     fst (get_or_compute st uid) = get_all_permissions st uid"
  by (simp add: get_or_compute_def UserPermissionCache_get_def Let_def get_user_id)

lemma require_permission_frame:
  assumes "\<And>s. snd (f s)\<lparr>cache := cache st\<rparr> = s\<lparr>cache := cache st\<rparr>"
  shows "snd (require_permission p usr st f)\<lparr>cache := cache st\<rparr> = st"
proof -
  let ?st1 = "snd (has_permission st usr p)"
  obtain c where c: "?st1 = st\<lparr>cache := c\<rparr>"
    using has_permission_frame [of st usr p] by blast
  show ?thesis
  proof (cases "fst (has_permission st usr p)")
    case True
    then show ?thesis
      using assms [of ?st1] c by (simp add: require_permission_granted)
  next
    case False
    then show ?thesis
      using c by (simp add: require_permission_denied)
  qed
qed

lemma require_permission_isl:
  assumes "\<And>s. isl (fst (f s))"
  shows "isl (fst (require_permission p usr st f))"
  using assms
  by (cases "fst (has_permission st usr p)")
     (simp_all add: require_permission_granted require_permission_denied)

lemma demo_has_permission:
  "fst (has_permission demo (Some (User admin)) ''auth.change_user'')"
  "fst (has_permission demo (Some (User admin)) ''auth.delete_user'')"
  "fst (has_permission demo (Some (User admin)) ''auth.add_user'')"
  "fst (has_permission demo (Some (User root)) ''auth.change_user'')"
  "fst (has_permission demo (Some (User root)) ''auth.delete_user'')"
  "\<not> fst (has_permission demo (Some (User alice)) ''auth.delete_user'')"
  by (simp_all add: resolver_defs demo_defs Let_def case_prod_beta)

lemma find_append_new: "find Q xs = None \<Longrightarrow> Q y \<Longrightarrow> find Q (xs @ [y]) = Some y"
  by (induction xs) (auto split: if_splits)

lemma find_append_old: "find Q xs = Some x \<Longrightarrow> find Q (xs @ ys) = Some x"
  by (induction xs) (auto split: if_splits)

lemma find_map_replace:
  "find (\<lambda>r. k r = i) xs = Some x \<Longrightarrow> k y = i \<Longrightarrow>
     find (\<lambda>r. k r = i) (map (\<lambda>r. if k r = i then y else r) xs) = Some y"
  by (induction xs) (auto split: if_splits)

lemma find_map_change:
  "find (\<lambda>r. k r = i) xs = Some x \<Longrightarrow> (\<And>r. k (g r) = k r) \<Longrightarrow>
     find (\<lambda>r. k r = i) (map (\<lambda>r. if k r = i then g r else r) xs) = Some (g x)"
  by (induction xs) (auto split: if_splits)

lemma map_key_replace:
  "k y = i \<Longrightarrow> map k (map (\<lambda>r. if k r = i then y else r) xs) = map k xs"
  by (induction xs) auto

lemma User_save_get_user:
  "get_user (User_save st inst) (user_id inst) = Some inst"
  by (cases "get_user st (user_id inst)")
     (auto simp: User_save_def get_user_def create_user_profile_def
           intro: find_append_new find_map_replace)

lemma User_save_ids:
  "set (map user_id (users st)) \<subseteq> set (map user_id (users (User_save st inst)))"
proof (cases "get_user st (user_id inst)")
  case None
  then show ?thesis by (auto simp: User_save_def create_user_profile_def)
next
  case (Some row)
  have "map user_id (map (\<lambda>r. if user_id r = user_id inst then inst else r) (users st)) =
        map user_id (users st)"
    by (rule map_key_replace) simp
  then show ?thesis using Some
    by (simp add: User_save_def del: map_map)
qed

lemma User_save_length: "length (users st) \<le> length (users (User_save st inst))"
  by (cases "get_user st (user_id inst)") (auto simp: User_save_def create_user_profile_def)

lemma User_save_profile:
  "get_profile st uid = Some prof \<Longrightarrow> get_profile (User_save st inst) uid = Some prof"
  by (cases "get_user st (user_id inst)")
     (auto simp: User_save_def get_profile_def create_user_profile_def intro: find_append_old)

lemma User_save_cache: "cache (User_save st inst) = cache st"
  by (cases "get_user st (user_id inst)") (auto simp: User_save_def create_user_profile_def)

lemma SoftDeleteModel_delete_profile:
  "get_profile st uid = Some prof \<Longrightarrow>
     get_profile (SoftDeleteModel_delete now st uid) uid = Some (prof\<lparr>deleted_at := Some now\<rparr>)"
  unfolding get_profile_def SoftDeleteModel_delete_def
  using find_map_change [where k = profile_user and g = "\<lambda>p. p\<lparr>deleted_at := Some now\<rparr>"]
  by simp

lemmas token_defs =
  alice_token_def alice_other_token_def forged_token_def for_user_def access_token_def
  REFRESH_TOKEN_LIFETIME_def ACCESS_TOKEN_LIFETIME_def RefreshToken_def blacklist_token_def
  token_invalido_def credenciales_invalidas_def

lemma refresh_token_state: "snd (refresh_token st now tok) = st"
  by (simp add: refresh_token_def split: sum.splits token_error.splits)

lemma refresh_token_response:
  "fst (refresh_token st now tok) = Inr resp \<Longrightarrow>
     resp = [''access'' \<mapsto> AccessValue (access_token now tok)] \<and> resp ''refresh'' = None"
  by (auto simp: refresh_token_def RefreshToken_def split: sum.splits token_error.splits if_splits)

lemma refresh_token_accepted_again:
  assumes "fst (refresh_token st now tok) = Inr resp" and "now' < expiry tok"
  shows "fst (refresh_token (snd (refresh_token st now tok)) now' tok) =
           Inr [''access'' \<mapsto> AccessValue (access_token now' tok)]"
  using assms
  by (auto simp: refresh_token_def RefreshToken_def split: sum.splits token_error.splits if_splits)

lemma login_inactive_ModelBackend:
  assumes "get_by_natural_key st uname = Some usr" and "\<not> is_active usr"
  shows "login ModelBackend check_password now new_jti st uname pw =
           (Inl (AuthenticationFailed credenciales_invalidas), st)"
  using assms by (simp add: login_def authenticate_def)

lemma login_inactive_AllowAllUsersModelBackend:
  assumes "get_by_natural_key st uname = Some usr" and "\<not> is_active usr"
      and "check_password pw (password usr)"
  shows "login AllowAllUsersModelBackend check_password now new_jti st uname pw =
           (Inl (AuthenticationFailed ''Usuario inactivo''), st)"
  using assms by (simp add: login_def authenticate_def)

lemma login_blacklist: "blacklist (snd (login backend check_password now new_jti st uname pw)) = blacklist st"
  by (simp add: login_def Let_def split: option.splits)

lemma logout_blacklist_mono: "x \<in> blacklist st \<Longrightarrow> x \<in> blacklist (snd (logout st now tok))"
  by (simp add: logout_def blacklist_token_def split: sum.splits token_error.splits)

lemma auth_step_blacklist_mono:
  "x \<in> blacklist st \<Longrightarrow> x \<in> blacklist (auth_step backend check_password st call)"
proof (cases call)
  case (Pair now req)
  then show "x \<in> blacklist st \<Longrightarrow> ?thesis"
    by (cases req) (simp_all add: login_blacklist refresh_token_state logout_blacklist_mono)
qed

lemma auth_run_blacklist_mono:
  "x \<in> blacklist st \<Longrightarrow> x \<in> blacklist (auth_run backend check_password st calls)"
  unfolding auth_run_def
  by (induction calls arbitrary: st) (simp_all add: auth_step_blacklist_mono)

lemma logout_success:
  "logout st now tok = (Inr (), st1) \<Longrightarrow>
     signature_valid tok \<and> now < expiry tok \<and> jti tok \<notin> blacklist st \<and> jti tok \<in> blacklist st1"
  by (auto simp: logout_def RefreshToken_def blacklist_token_def
           split: sum.splits token_error.splits if_splits)

section \<open>The authorization gate\<close>

text \<open>
  C1. The gate \<open>HasPermission.has_permission\<close>: a null or anonymous principal is denied;
  a superuser is allowed; any other authenticated principal is allowed when the view
  declares no entry for the action or declares the empty list, and otherwise exactly
  when every permission the entry names is in the principal's resolved permission set
  (\<open>get_user_permissions_cached\<close>). In the last case the action has a name: the
  framework's action names are method names, never the empty string.
\<close>

theorem authorization_gate:
  "fst (HasPermission_has_permission st None v) = False
   \<and> fst (HasPermission_has_permission st (Some AnonymousUser) v) = False
   \<and> (is_superuser u \<longrightarrow> fst (HasPermission_has_permission st (Some (User u)) v) = True)
   \<and> (\<not> is_superuser u \<longrightarrow>
        (declared_entry v = None \<longrightarrow>
           fst (HasPermission_has_permission st (Some (User u)) v) = True)
      \<and> (declared_entry v = Some (Many []) \<longrightarrow>
           fst (HasPermission_has_permission st (Some (User u)) v) = True)
      \<and> (\<forall>entry. declared_entry v = Some entry \<and> action v \<noteq> Some [] \<longrightarrow>
           fst (HasPermission_has_permission st (Some (User u)) v) =
             (required_set entry \<subseteq> fst (get_user_permissions_cached st (Some (User u))))))"
  by (auto simp: HasPermission_has_permission_def declared_entry_def list_all_mem_subset
           split: option.splits action_perms.splits prod.splits)

theorem authorization_gate_witness:
  "fst (HasPermission_has_permission demo None (UserViewSet ''list'')) = False
   \<and> fst (HasPermission_has_permission demo (Some AnonymousUser) (UserViewSet ''list'')) = False
   \<and> fst (HasPermission_has_permission demo (Some (User root)) (UserViewSet ''destroy'')) = True
   \<and> declared_entry (UserViewSet ''me'') = Some (Many [])
   \<and> fst (HasPermission_has_permission demo (Some (User alice)) (UserViewSet ''me'')) = True
   \<and> declared_entry (UserViewSet ''export'') = None
   \<and> fst (HasPermission_has_permission demo (Some (User alice)) (UserViewSet ''export'')) = True
   \<and> declared_entry (UserViewSet ''list'') = Some (Many [''auth.view_user''])
   \<and> fst (HasPermission_has_permission demo (Some (User alice)) (UserViewSet ''list'')) = True
   \<and> declared_entry (UserViewSet ''destroy'') = Some (Many [''auth.delete_user''])
   \<and> fst (HasPermission_has_permission demo (Some (User alice)) (UserViewSet ''destroy'')) = False"
proof -
  have perms: "fst (get_user_permissions_cached demo (Some (User alice))) = {''auth.view_user''}"
    by (simp add: demo_defs resolver_defs Let_def)
  have e1: "declared_entry (UserViewSet ''me'') = Some (Many [])"
   and e2: "declared_entry (UserViewSet ''export'') = None"
   and e3: "declared_entry (UserViewSet ''list'') = Some (Many [''auth.view_user''])"
   and e4: "declared_entry (UserViewSet ''destroy'') = Some (Many [''auth.delete_user''])"
    by (simp_all add: declared_entry_def demo_defs)
  have a: "\<not> is_superuser alice" "is_superuser root"
    by (simp_all add: demo_defs)
  have n: "\<And>act. act \<noteq> [] \<Longrightarrow> action (UserViewSet act) \<noteq> Some []"
    by (simp add: UserViewSet_def)
  show ?thesis
    using authorization_gate [of demo "UserViewSet ''list''" root]
          authorization_gate [of demo "UserViewSet ''destroy''" root]
          authorization_gate [of demo "UserViewSet ''me''" alice]
          authorization_gate [of demo "UserViewSet ''export''" alice]
          authorization_gate [of demo "UserViewSet ''list''" alice]
          authorization_gate [of demo "UserViewSet ''destroy''" alice]
    by (simp add: perms e1 e2 e3 e4 a n del: get_user_permissions_cached.simps)
qed

text \<open>An action whose name is the empty string counts as no action (\<open>not action\<close>):
  the gate lets every authenticated principal through, whatever the view declares.\<close>

lemma authorization_gate_empty_name:
  "action v = Some [] \<Longrightarrow> fst (HasPermission_has_permission st (Some (User u)) v) = True"
  by (simp add: HasPermission_has_permission_def)

section \<open>Cache coherence\<close>

text \<open>
  C2. A successful \<open>assign_role\<close> or \<open>remove_role\<close> for a principal P of the store has
  deleted P's cache entry when it returns, and resolving P's permissions right after
  (\<open>get_or_compute\<close>) gives the set computed from P's memberships after the change,
  united with its direct grants, whatever the cache held before.
\<close>

theorem role_change_cache_coherence:
  assumes P: "get_user st (user_id P) = Some row"
  shows
    "(assign_role self_user st P gid = (Inr (), st') \<longrightarrow>
        cache st' (user_id P) = None
      \<and> user_groups st' (user_id P) = insert gid (user_groups st (user_id P))
      \<and> user_permissions st' = user_permissions st \<and> groups st' = groups st
      \<and> fst (get_or_compute st' (user_id P)) =
          user_permissions st' (user_id P) \<union>
          (\<Union>g \<in> user_groups st' (user_id P).
             case get_group st' g of None \<Rightarrow> {} | Some grp \<Rightarrow> group_permissions grp))
   \<and> (remove_role self_user st P gid = (Inr (), st'') \<longrightarrow>
        cache st'' (user_id P) = None
      \<and> user_groups st'' (user_id P) = user_groups st (user_id P) - {gid}
      \<and> user_permissions st'' = user_permissions st \<and> groups st'' = groups st
      \<and> fst (get_or_compute st'' (user_id P)) =
          user_permissions st'' (user_id P) \<union>
          (\<Union>g \<in> user_groups st'' (user_id P).
             case get_group st'' g of None \<Rightarrow> {} | Some grp \<Rightarrow> group_permissions grp))"
proof (intro conjI impI)
  assume a: "assign_role self_user st P gid = (Inr (), st')"
  then obtain c grp where st': 
    "st' = st\<lparr>user_groups := (user_groups st)(user_id P := insert gid (user_groups st (user_id P))),
              cache := c(user_id P := None)\<rparr>"
    using assign_role_success by blast
  show "cache st' (user_id P) = None" by (simp add: st')
  show "user_groups st' (user_id P) = insert gid (user_groups st (user_id P))" by (simp add: st')
  show "user_permissions st' = user_permissions st" by (simp add: st')
  show "groups st' = groups st" by (simp add: st')
  have "get_user st' (user_id P) = Some row" using P by (simp add: st' get_user_def)
  then have "fst (get_or_compute st' (user_id P)) = get_all_permissions st' (user_id P)"
    by (intro get_or_compute_miss) (simp_all add: st')
  then show "fst (get_or_compute st' (user_id P)) =
          user_permissions st' (user_id P) \<union>
          (\<Union>g \<in> user_groups st' (user_id P).
             case get_group st' g of None \<Rightarrow> {} | Some grp \<Rightarrow> group_permissions grp)"
    by (simp add: get_all_permissions_def)
next
  assume a: "remove_role self_user st P gid = (Inr (), st'')"
  then obtain c grp where st': 
    "st'' = st\<lparr>user_groups := (user_groups st)(user_id P := user_groups st (user_id P) - {gid}),
              cache := c(user_id P := None)\<rparr>"
    using remove_role_success by blast
  show "cache st'' (user_id P) = None" by (simp add: st')
  show "user_groups st'' (user_id P) = user_groups st (user_id P) - {gid}" by (simp add: st')
  show "user_permissions st'' = user_permissions st" by (simp add: st')
  show "groups st'' = groups st" by (simp add: st')
  have "get_user st'' (user_id P) = Some row" using P by (simp add: st' get_user_def)
  then have "fst (get_or_compute st'' (user_id P)) = get_all_permissions st'' (user_id P)"
    by (intro get_or_compute_miss) (simp_all add: st')
  then show "fst (get_or_compute st'' (user_id P)) =
          user_permissions st'' (user_id P) \<union>
          (\<Union>g \<in> user_groups st'' (user_id P).
             case get_group st'' g of None \<Rightarrow> {} | Some grp \<Rightarrow> group_permissions grp)"
    by (simp add: get_all_permissions_def)
qed

theorem role_change_cache_coherence_witness:
  "get_user demo_cached 3 = Some alice
   \<and> cache demo_cached 3 = Some {''auth.view_user''}
   \<and> fst (assign_role (Some (User admin)) demo_cached alice 2) = Inr ()
   \<and> cache (snd (assign_role (Some (User admin)) demo_cached alice 2)) 3 = None
   \<and> fst (get_or_compute (snd (assign_role (Some (User admin)) demo_cached alice 2)) 3) =
       {''auth.view_user'', ''auth.add_user'', ''auth.change_user''}
   \<and> fst (remove_role (Some (User admin)) demo_cached alice 3) = Inr ()
   \<and> cache (snd (remove_role (Some (User admin)) demo_cached alice 3)) 3 = None
   \<and> fst (get_or_compute (snd (remove_role (Some (User admin)) demo_cached alice 3)) 3) = {}"
proof -
  let ?a = "assign_role (Some (User admin)) demo_cached alice 2"
  let ?r = "remove_role (Some (User admin)) demo_cached alice 3"
  have u: "get_user demo_cached 3 = Some alice" "user_id alice = 3"
    by (simp_all add: get_user_def demo_defs)
  have c: "cache demo_cached 3 = Some {''auth.view_user''}"
    by (simp add: demo_defs)
  have fa: "fst ?a = Inr ()"
    by (simp add: assign_role_def resolver_defs demo_defs Let_def case_prod_beta)
  have fr: "fst ?r = Inr ()"
    by (simp add: remove_role_def resolver_defs demo_defs Let_def case_prod_beta)
  have ea: "?a = (Inr (), snd ?a)" and er: "?r = (Inr (), snd ?r)"
    using fa fr by (simp_all add: prod_eq_iff)
  have g: "user_groups demo_cached 3 = {3}" "user_permissions demo_cached 3 = {}"
          "groups demo_cached = [Administradores, Operadores, Usuarios]"
    by (simp_all add: demo_defs)
  have u': "get_user demo_cached (user_id alice) = Some alice"
    using u by simp
  note ta = role_change_cache_coherence [OF u', THEN conjunct1, THEN mp, OF ea]
  note tr = role_change_cache_coherence [OF u', THEN conjunct2, THEN mp, OF er]
  have pa: "fst (get_or_compute (snd ?a) 3) = {''auth.view_user'', ''auth.add_user'', ''auth.change_user''}"
    using ta u g by (auto simp: get_group_def Administradores_def Operadores_def Usuarios_def)
  have pr: "fst (get_or_compute (snd ?r) 3) = {}"
    using tr u g by (simp add: get_group_def)
  show ?thesis
    using ta tr u c fa fr pa pr by simp
qed

section \<open>Resolving an id that has no user\<close>

text \<open>
  C10, as the code has it. For a user id with no principal in the store and no cache
  entry, \<open>get_or_compute\<close> returns the empty set, raises nothing and writes no cache
  entry, so the next resolution goes to the store again. The cache is read first: an
  entry that is present under the id is what is returned.
\<close>

theorem get_or_compute_unknown_user:
  assumes "get_user st uid = None" and "cache st uid = None"
  shows "get_or_compute st uid = ({}, st)
         \<and> cache (snd (get_or_compute st uid)) uid = None
         \<and> get_or_compute (snd (get_or_compute st uid)) uid = ({}, st)"
  using assms by (simp add: get_or_compute_def UserPermissionCache_get_def)

theorem get_or_compute_unknown_user_witness:
  "get_user demo 9 = None \<and> cache demo 9 = None \<and> get_or_compute demo 9 = ({}, demo)
   \<and> get_or_compute (snd (get_or_compute demo 9)) 9 = ({}, demo)"
proof -
  have h: "get_user demo 9 = None" "cache demo 9 = None"
    by (simp_all add: get_user_def demo_defs)
  show ?thesis
    using get_or_compute_unknown_user [OF h] h by simp
qed

text \<open>With an entry left in the cache under an id that has no user, the cached set
  is returned, not the empty set.\<close>

theorem get_or_compute_cached_unknown_user:
  "get_user demo_orphan 9 = None
   \<and> fst (get_or_compute demo_orphan 9) = {''auth.view_user''}
   \<and> fst (get_or_compute demo_orphan 9) \<noteq> {}"
  by (simp add: get_or_compute_def UserPermissionCache_get_def get_user_def demo_defs)

text \<open>In general, an entry that is present is returned as it is, and nothing is
  written.\<close>

lemma get_or_compute_hit:
  "cache st uid = Some cached \<Longrightarrow> get_or_compute st uid = (cached, st)"
  by (simp add: get_or_compute_def UserPermissionCache_get_def)

section \<open>Self-protection\<close>

text \<open>
  C4, as the code has it. A principal acting on itself, whatever its superuser flag,
  never succeeds in an update that sets the account inactive, in an update that drops
  the administrators' role it holds, or in a delete. The decorator
  \<open>require_permission\<close> runs before the self-checks: a principal without the permission
  the operation requires gets the permission refusal \<open>No tienes permiso\<close>; one with it
  gets the self-protection error of the case, the deactivation check coming before the
  role check. In every case nothing but the permission cache is written: the store is
  as it was.
\<close>

theorem self_protection:
  assumes self: "principal_id self_user = Some (user_id target)"
  shows
    "(vd_is_active changes = Some False \<longrightarrow>
        isl (fst (update_user self_user st target changes))
      \<and> (fst (has_permission st self_user ''auth.change_user'') \<longrightarrow>
            fst (update_user self_user st target changes) =
              Inl (PermissionDenied ''No puedes desactivar tu propia cuenta''))
      \<and> snd (update_user self_user st target changes)\<lparr>cache := cache st\<rparr> = st)
   \<and> (find (\<lambda>g. group_name g = ''Administradores'') (groups st) = Some admin_group
        \<and> group_id admin_group \<in> user_groups st (user_id target)
        \<and> vd_group_ids changes = Some ids \<and> group_id admin_group \<notin> set ids \<longrightarrow>
        isl (fst (update_user self_user st target changes))
      \<and> (fst (has_permission st self_user ''auth.change_user'')
          \<and> vd_is_active changes \<noteq> Some False \<longrightarrow>
            fst (update_user self_user st target changes) =
              Inl (PermissionDenied ''No puedes remover tu propio rol de Administrador''))
      \<and> snd (update_user self_user st target changes)\<lparr>cache := cache st\<rparr> = st)
   \<and> (\<not> fst (has_permission st self_user ''auth.change_user'') \<longrightarrow>
         fst (update_user self_user st target changes) =
           Inl (PermissionDenied ''No tienes permiso: auth.change_user''))
   \<and> isl (fst (delete_user self_user now st target))
   \<and> (fst (has_permission st self_user ''auth.delete_user'') \<longrightarrow>
         fst (delete_user self_user now st target) =
           Inl (PermissionDenied ''No puedes eliminar tu propia cuenta''))
   \<and> (\<not> fst (has_permission st self_user ''auth.delete_user'') \<longrightarrow>
         fst (delete_user self_user now st target) =
           Inl (PermissionDenied ''No tienes permiso: auth.delete_user''))
   \<and> snd (delete_user self_user now st target)\<lparr>cache := cache st\<rparr> = st"
proof -
  let ?st1 = "snd (has_permission st self_user ''auth.change_user'')"
  obtain c where c: "?st1 = st\<lparr>cache := c\<rparr>"
    using has_permission_frame [of st self_user "''auth.change_user''"] by blast
  have upd_frame: "snd (update_user self_user st target changes)\<lparr>cache := cache st\<rparr> = st"
    unfolding update_user_def by (rule require_permission_frame) simp
  have deact: "isl (fst (update_user self_user st target changes))"
    if "vd_is_active changes = Some False"
    unfolding update_user_def using that self by (intro require_permission_isl) simp
  have deact_kind: "fst (update_user self_user st target changes) =
              Inl (PermissionDenied ''No puedes desactivar tu propia cuenta'')"
    if "vd_is_active changes = Some False" "fst (has_permission st self_user ''auth.change_user'')"
    using that self by (simp add: update_user_def require_permission_granted)
  have demote: "isl (fst (update_user self_user st target changes))"
    if "find (\<lambda>g. group_name g = ''Administradores'') (groups st) = Some admin_group"
       "group_id admin_group \<in> user_groups st (user_id target)"
       "vd_group_ids changes = Some ids" "group_id admin_group \<notin> set ids"
  proof (cases "fst (has_permission st self_user ''auth.change_user'')")
    case True
    then show ?thesis
      using that self c by (simp add: update_user_def require_permission_granted)
  next
    case False
    then show ?thesis
      by (simp add: update_user_def require_permission_denied)
  qed
  have demote_kind: "fst (update_user self_user st target changes) =
              Inl (PermissionDenied ''No puedes remover tu propio rol de Administrador'')"
    if "find (\<lambda>g. group_name g = ''Administradores'') (groups st) = Some admin_group"
       "group_id admin_group \<in> user_groups st (user_id target)"
       "vd_group_ids changes = Some ids" "group_id admin_group \<notin> set ids"
       "fst (has_permission st self_user ''auth.change_user'')"
       "vd_is_active changes \<noteq> Some False"
    using that self c by (simp add: update_user_def require_permission_granted)
  have del: "isl (fst (delete_user self_user now st target))"
    unfolding delete_user_def using self by (intro require_permission_isl) simp
  have del_kind: "fst (delete_user self_user now st target) =
           Inl (PermissionDenied ''No puedes eliminar tu propia cuenta'')"
    if "fst (has_permission st self_user ''auth.delete_user'')"
    using that self by (simp add: delete_user_def require_permission_granted)
  have del_frame: "snd (delete_user self_user now st target)\<lparr>cache := cache st\<rparr> = st"
    unfolding delete_user_def using self by (intro require_permission_frame) simp
  have upd_refused: "fst (update_user self_user st target changes) =
           Inl (PermissionDenied ''No tienes permiso: auth.change_user'')"
    if "\<not> fst (has_permission st self_user ''auth.change_user'')"
    using that by (simp add: update_user_def require_permission_denied)
  have del_refused: "fst (delete_user self_user now st target) =
           Inl (PermissionDenied ''No tienes permiso: auth.delete_user'')"
    if "\<not> fst (has_permission st self_user ''auth.delete_user'')"
    using that by (simp add: delete_user_def require_permission_denied)
  show ?thesis
    using upd_frame deact deact_kind demote demote_kind del del_kind del_frame
          upd_refused del_refused
    by blast
qed

theorem self_protection_witness:
  "fst (update_user (Some (User admin)) demo admin deactivate) =
     Inl (PermissionDenied ''No puedes desactivar tu propia cuenta'')
   \<and> snd (update_user (Some (User admin)) demo admin deactivate)\<lparr>cache := cache demo\<rparr> = demo
   \<and> is_superuser root
   \<and> fst (update_user (Some (User root)) demo root deactivate) =
     Inl (PermissionDenied ''No puedes desactivar tu propia cuenta'')
   \<and> fst (update_user (Some (User admin)) demo admin keep_operadores_only) =
     Inl (PermissionDenied ''No puedes remover tu propio rol de Administrador'')
   \<and> snd (update_user (Some (User admin)) demo admin keep_operadores_only)\<lparr>cache := cache demo\<rparr> = demo
   \<and> fst (delete_user (Some (User admin)) 50 demo admin) =
     Inl (PermissionDenied ''No puedes eliminar tu propia cuenta'')
   \<and> fst (delete_user (Some (User root)) 50 demo root) =
     Inl (PermissionDenied ''No puedes eliminar tu propia cuenta'')
   \<and> fst (delete_user (Some (User alice)) 50 demo alice) =
     Inl (PermissionDenied ''No tienes permiso: auth.delete_user'')
   \<and> snd (delete_user (Some (User alice)) 50 demo alice)\<lparr>cache := cache demo\<rparr> = demo"
proof -
  have ids: "principal_id (Some (User admin)) = Some (user_id admin)"
            "principal_id (Some (User root)) = Some (user_id root)"
            "principal_id (Some (User alice)) = Some (user_id alice)"
    by simp_all
  have adm: "find (\<lambda>g. group_name g = ''Administradores'') (groups demo) = Some Administradores"
            "group_id Administradores \<in> user_groups demo (user_id admin)"
            "vd_group_ids keep_operadores_only = Some [2]"
            "group_id Administradores \<notin> set [2]"
            "vd_is_active keep_operadores_only \<noteq> Some False"
            "vd_is_active deactivate = Some False"
            "is_superuser root"
    by (simp_all add: demo_defs keep_operadores_only_def deactivate_def)
  note a1 = self_protection [OF ids(1), where st = demo and changes = deactivate and now = 50]
  note a2 = self_protection [OF ids(1), where st = demo and changes = keep_operadores_only
                             and admin_group = Administradores and ids = "[2]" and now = 50]
  note r1 = self_protection [OF ids(2), where st = demo and changes = deactivate and now = 50]
  note l1 = self_protection [OF ids(3), where st = demo and now = 50]
  have 1: "fst (update_user (Some (User admin)) demo admin deactivate) =
     Inl (PermissionDenied ''No puedes desactivar tu propia cuenta'')"
     "snd (update_user (Some (User admin)) demo admin deactivate)\<lparr>cache := cache demo\<rparr> = demo"
    using a1 adm demo_has_permission by blast+
  have 2: "fst (update_user (Some (User admin)) demo admin keep_operadores_only) =
     Inl (PermissionDenied ''No puedes remover tu propio rol de Administrador'')"
     "snd (update_user (Some (User admin)) demo admin keep_operadores_only)\<lparr>cache := cache demo\<rparr> = demo"
    using a2 adm demo_has_permission by blast+
  have 3: "fst (update_user (Some (User root)) demo root deactivate) =
     Inl (PermissionDenied ''No puedes desactivar tu propia cuenta'')"
     "fst (delete_user (Some (User root)) 50 demo root) =
     Inl (PermissionDenied ''No puedes eliminar tu propia cuenta'')"
    using r1 adm demo_has_permission by blast+
  have 4: "fst (delete_user (Some (User admin)) 50 demo admin) =
     Inl (PermissionDenied ''No puedes eliminar tu propia cuenta'')"
    using a1 demo_has_permission by blast
  have 5: "fst (delete_user (Some (User alice)) 50 demo alice) =
     Inl (PermissionDenied ''No tienes permiso: auth.delete_user'')"
     "snd (delete_user (Some (User alice)) 50 demo alice)\<lparr>cache := cache demo\<rparr> = demo"
    using l1 demo_has_permission(6) by blast+
  show ?thesis
    using 1 2 3 4 5 adm by simp
qed

text \<open>Alice holds only \<open>auth.view_user\<close>. Deleting or deactivating herself, she is
  refused by the permission check, not by the self-protection check: the failure is not
  the self-deletion or self-deactivation error.\<close>

theorem self_delete_without_permission:
  "principal_id (Some (User alice)) = Some (user_id alice)
   \<and> fst (get_user_permissions_cached demo (Some (User alice))) = {''auth.view_user''}
   \<and> fst (delete_user (Some (User alice)) 50 demo alice) =
       Inl (PermissionDenied ''No tienes permiso: auth.delete_user'')
   \<and> fst (delete_user (Some (User alice)) 50 demo alice) \<noteq>
       Inl (PermissionDenied ''No puedes eliminar tu propia cuenta'')
   \<and> vd_is_active deactivate = Some False
   \<and> fst (update_user (Some (User alice)) demo alice deactivate) =
       Inl (PermissionDenied ''No tienes permiso: auth.change_user'')
   \<and> fst (update_user (Some (User alice)) demo alice deactivate) \<noteq>
       Inl (PermissionDenied ''No puedes desactivar tu propia cuenta'')"
  by (simp add: delete_user_def update_user_def resolver_defs demo_defs Let_def case_prod_beta)

section \<open>Soft delete\<close>

text \<open>
  C8. A delete by a requester who holds the delete permission and is not the target
  succeeds. Afterwards the target's row is still found by its id and is inactive, the
  target's profile carries the deletion time, the target has no entry in the permission
  cache, and no row has left the users' table. The target has a profile (every user
  gets one when it is created).
\<close>

theorem delete_user_soft_delete:
  assumes perm: "fst (has_permission st self_user ''auth.delete_user'')"
      and other: "principal_id self_user \<noteq> Some (user_id target)"
      and prof: "get_profile st (user_id target) = Some prof"
  shows
    "fst (delete_user self_user now st target) = Inr ()
   \<and> get_user (snd (delete_user self_user now st target)) (user_id target) =
       Some (target\<lparr>is_active := False\<rparr>)
   \<and> get_profile (snd (delete_user self_user now st target)) (user_id target) =
       Some (prof\<lparr>deleted_at := Some now\<rparr>)
   \<and> cache (snd (delete_user self_user now st target)) (user_id target) = None
   \<and> set (map user_id (users st)) \<subseteq>
       set (map user_id (users (snd (delete_user self_user now st target))))
   \<and> length (users st) \<le> length (users (snd (delete_user self_user now st target)))"
proof -
  let ?st0 = "snd (has_permission st self_user ''auth.delete_user'')"
  let ?t = "target\<lparr>is_active := False\<rparr>"
  let ?st1 = "User_save ?st0 ?t"
  let ?st2 = "SoftDeleteModel_delete now ?st1 (user_id target)"
  let ?st3 = "invalidate_user_permissions_cache ?st2 (user_id target)"
  obtain c where c: "?st0 = st\<lparr>cache := c\<rparr>"
    using has_permission_frame [of st self_user "''auth.delete_user''"] by blast
  have p0: "get_profile ?st0 (user_id target) = Some prof"
    using prof c by (simp add: get_profile_def)
  have p1: "get_profile ?st1 (user_id target) = Some prof"
    using User_save_profile [OF p0] .
  have other': "Some (user_id target) \<noteq> principal_id self_user"
    using other by (rule not_sym)
  have run: "delete_user self_user now st target = (Inr (), ?st3)"
    using perm other' p1
    by (simp add: delete_user_def require_permission_granted Let_def)
  have u1: "get_user ?st1 (user_id target) = Some ?t"
    using User_save_get_user [of ?st0 ?t] by simp
  have u3: "get_user ?st3 (user_id target) = Some ?t"
    using u1 by (simp add: get_user_def SoftDeleteModel_delete_def invalidate_user_permissions_cache_def)
  have p3: "get_profile ?st3 (user_id target) = Some (prof\<lparr>deleted_at := Some now\<rparr>)"
    using SoftDeleteModel_delete_profile [OF p1, of now]
    by (simp add: get_profile_def invalidate_user_permissions_cache_def)
  have c3: "cache ?st3 (user_id target) = None"
    by (simp add: invalidate_user_permissions_cache_def)
  have users3: "users ?st3 = users ?st1"
    by (simp add: SoftDeleteModel_delete_def invalidate_user_permissions_cache_def)
  have users0: "users ?st0 = users st"
    by (subst c) simp
  have ids: "set (map user_id (users st)) \<subseteq> set (map user_id (users ?st3))"
    using User_save_ids [of ?st0 ?t] by (simp only: users3 users0)
  have len: "length (users st) \<le> length (users ?st3)"
    using User_save_length [of ?st0 ?t] by (simp only: users3 users0)
  show ?thesis
    using u3 p3 c3 ids len by (simp only: run fst_conv snd_conv)
qed

theorem delete_user_soft_delete_witness:
  "fst (delete_user (Some (User admin)) 50 demo_cached alice) = Inr ()
   \<and> cache demo_cached 3 = Some {''auth.view_user''}
   \<and> get_user (snd (delete_user (Some (User admin)) 50 demo_cached alice)) 3 =
       Some (alice\<lparr>is_active := False\<rparr>)
   \<and> get_profile (snd (delete_user (Some (User admin)) 50 demo_cached alice)) 3 =
       Some ((new_profile 3)\<lparr>deleted_at := Some 50\<rparr>)
   \<and> cache (snd (delete_user (Some (User admin)) 50 demo_cached alice)) 3 = None
   \<and> length (users demo_cached) \<le>
       length (users (snd (delete_user (Some (User admin)) 50 demo_cached alice)))"
proof -
  have perm: "fst (has_permission demo_cached (Some (User admin)) ''auth.delete_user'')"
    by (simp add: resolver_defs demo_defs Let_def case_prod_beta)
  have other: "principal_id (Some (User admin)) \<noteq> Some (user_id alice)"
    by (simp add: demo_defs)
  have prof: "get_profile demo_cached (user_id alice) = Some (new_profile 3)"
    by (simp add: get_profile_def demo_defs)
  have c: "cache demo_cached 3 = Some {''auth.view_user''}" "user_id alice = 3"
    by (simp_all add: demo_defs)
  show ?thesis
    using delete_user_soft_delete [OF perm other prof, of 50] c by simp
qed

section \<open>The limit on active users\<close>

text \<open>
  C9. For a requester who holds the permission to add users: with ten or more active
  users \<open>create_user\<close> fails with the limit error, and with fewer it passes the validated
  data on for the user to be created. In either case the users' table is as it was:
  a refused creation adds no principal.
\<close>

theorem create_user_quota:
  assumes "fst (has_permission st self_user ''auth.add_user'')"
  shows
    "(10 \<le> length (filter is_active (users st)) \<longrightarrow>
        fst (create_user self_user st validated_data) = Inl (ValidationError limite_de_usuarios))
   \<and> (length (filter is_active (users st)) < 10 \<longrightarrow>
        fst (create_user self_user st validated_data) = Inr validated_data)
   \<and> users (snd (create_user self_user st validated_data)) = users st
   \<and> snd (create_user self_user st validated_data)\<lparr>cache := cache st\<rparr> = st"
proof -
  obtain c where c: "snd (has_permission st self_user ''auth.add_user'') = st\<lparr>cache := c\<rparr>"
    using has_permission_frame [of st self_user "''auth.add_user''"] by blast
  have fr: "snd (create_user self_user st validated_data)\<lparr>cache := cache st\<rparr> = st"
    unfolding create_user_def by (rule require_permission_frame) (simp add: Let_def)
  have "users (snd (create_user self_user st validated_data)\<lparr>cache := cache st\<rparr>) = users st"
    by (simp only: fr)
  then have us: "users (snd (create_user self_user st validated_data)) = users st"
    by simp
  show ?thesis
    using assms c fr us
    by (simp add: create_user_def require_permission_granted Let_def)
qed

theorem create_user_quota_witness:
  "length (filter is_active (users demo_full)) = 10
   \<and> fst (create_user (Some (User admin)) demo_full ''newuser'') =
       Inl (ValidationError limite_de_usuarios)
   \<and> users (snd (create_user (Some (User admin)) demo_full ''newuser'')) = users demo_full
   \<and> length (filter is_active (users demo)) = 3
   \<and> fst (create_user (Some (User admin)) demo ''newuser'') = Inr ''newuser''"
proof -
  have n: "length (filter is_active (users demo_full)) = 10"
          "length (filter is_active (users demo)) = 3"
    by (simp_all add: demo_full_def staff_def demo_defs)
  have p: "fst (has_permission demo_full (Some (User admin)) ''auth.add_user'')"
    by (simp add: demo_full_def resolver_defs demo_defs Let_def case_prod_beta)
  show ?thesis
    using create_user_quota [OF p, of "''newuser''"]
          create_user_quota [OF demo_has_permission(3), of "''newuser''"] n
    by simp
qed

section \<open>Refresh without rotation\<close>

text \<open>
  C3. The settings switch rotation on (\<open>ROTATE_REFRESH_TOKENS\<close>,
  \<open>BLACKLIST_AFTER_ROTATION\<close>), but \<open>AuthService.refresh_token\<close> reads neither: a valid
  refresh token presented at time 10 yields a response with the key \<open>access\<close> only, the
  token is not put on the blacklist, and the same token is accepted again at time 20.
\<close>

theorem refresh_token_does_not_rotate:
  "ROTATE_REFRESH_TOKENS \<and> BLACKLIST_AFTER_ROTATION
   \<and> refresh_token demo 10 alice_token =
       (Inr [''access'' \<mapsto> AccessValue \<lparr>access_user_id = 3, access_expiry = 130\<rparr>], demo)
   \<and> [''access'' \<mapsto> AccessValue \<lparr>access_user_id = 3, access_expiry = 130\<rparr>] ''refresh'' = None
   \<and> jti alice_token \<notin> blacklist (snd (refresh_token demo 10 alice_token))
   \<and> fst (refresh_token (snd (refresh_token demo 10 alice_token)) 20 alice_token) =
       Inr [''access'' \<mapsto> AccessValue \<lparr>access_user_id = 3, access_expiry = 140\<rparr>]"
  by (simp add: refresh_token_def token_defs ROTATE_REFRESH_TOKENS_def
                BLACKLIST_AFTER_ROTATION_def demo_defs)

section \<open>Refresh after logout\<close>

text \<open>
  C5, as the code has it. After a successful logout of a refresh token, every later
  refresh with that token fails, whatever calls to the authentication service came in
  between, and a repeated attempt fails the same way. The failure is the one
  \<open>ValidationError\<close> the service raises for every token error, with the library's text
  after the prefix \<open>token_invalido\<close>; that text says blacklisted while the token has not
  expired, and invalid or expired once it has.
\<close>

theorem revoked_token_refused:
  assumes "logout st t0 tok = (Inr (), st1)"
  shows
    "refresh_token (auth_run backend check_password st1 calls) now tok =
       (Inl (ValidationError
               (token_invalido @
                (if expiry tok \<le> now then ''Token is invalid or expired''
                 else ''Token is blacklisted''))),
        auth_run backend check_password st1 calls)
   \<and> refresh_token (auth_run backend check_password st1 calls) now tok =
     refresh_token (snd (refresh_token (auth_run backend check_password st1 calls) now tok)) now tok"
proof -
  have "jti tok \<in> blacklist (auth_run backend check_password st1 calls)"
    using logout_success [OF assms] by (simp add: auth_run_blacklist_mono)
  moreover have "signature_valid tok"
    using logout_success [OF assms] by simp
  ultimately show ?thesis
    by (simp add: refresh_token_def RefreshToken_def)
qed

theorem revoked_token_refused_witness:
  "fst (logout demo 10 alice_token) = Inr ()
   \<and> fst (refresh_token
            (auth_run ModelBackend demo_check_password (snd (logout demo 10 alice_token)) later_calls)
            50 alice_token) =
       Inl (ValidationError (token_invalido @ ''Token is blacklisted''))
   \<and> fst (refresh_token
            (auth_run ModelBackend demo_check_password (snd (logout demo 10 alice_token)) later_calls)
            300 alice_token) =
       Inl (ValidationError (token_invalido @ ''Token is invalid or expired''))"
proof -
  have f: "fst (logout demo 10 alice_token) = Inr ()"
    by (simp add: logout_def token_defs demo_defs)
  then have l: "logout demo 10 alice_token = (Inr (), snd (logout demo 10 alice_token))"
    by (simp add: prod_eq_iff)
  have e: "expiry alice_token = 300"
    by (simp add: token_defs)
  show ?thesis
    using revoked_token_refused [OF l, of ModelBackend demo_check_password later_calls 50]
          revoked_token_refused [OF l, of ModelBackend demo_check_password later_calls 300] f e
    by simp
qed

text \<open>Once the revoked token has expired, its failure is the one an expired token that
  was never revoked gets, and the one a token with a bad signature gets.\<close>

theorem revoked_token_after_expiry:
  "fst (logout demo 10 alice_token) = Inr ()
   \<and> jti alice_token \<in> blacklist (snd (logout demo 10 alice_token))
   \<and> jti alice_other_token \<notin> blacklist (snd (logout demo 10 alice_token))
   \<and> fst (refresh_token (snd (logout demo 10 alice_token)) 300 alice_token) =
       Inl (ValidationError (token_invalido @ ''Token is invalid or expired''))
   \<and> fst (refresh_token (snd (logout demo 10 alice_token)) 300 alice_token) =
     fst (refresh_token (snd (logout demo 10 alice_token)) 300 alice_other_token)
   \<and> fst (refresh_token (snd (logout demo 10 alice_token)) 300 alice_token) =
     fst (refresh_token (snd (logout demo 10 alice_token)) 20 forged_token)"
  by (simp add: logout_def refresh_token_def token_defs demo_defs)

section \<open>Login failures\<close>

text \<open>
  C6. A login with a username that matches no principal and a login with a password
  that does not match the stored hash give the same result, the failure
  \<open>credenciales_invalidas\<close>, and leave the state as it was, under either backend.
\<close>

theorem login_failure_indistinguishable:
  assumes unknown: "get_by_natural_key st unknown_name = None"
      and known: "get_by_natural_key st known_name = Some usr"
      and wrong: "\<not> check_password wrong_pw (password usr)"
  shows "login backend check_password now new_jti st unknown_name any_pw =
           (Inl (AuthenticationFailed credenciales_invalidas), st)
       \<and> login backend check_password now' new_jti' st known_name wrong_pw =
           (Inl (AuthenticationFailed credenciales_invalidas), st)
       \<and> fst (login backend check_password now new_jti st unknown_name any_pw) =
         fst (login backend check_password now' new_jti' st known_name wrong_pw)"
  using assms by (simp add: login_def authenticate_def)

theorem login_failure_indistinguishable_witness:
  "get_by_natural_key demo ''mallory'' = None
   \<and> get_by_natural_key demo ''alice'' = Some alice
   \<and> \<not> demo_check_password ''guess'' (password alice)
   \<and> login ModelBackend demo_check_password 10 7 demo ''mallory'' ''guess'' =
       (Inl (AuthenticationFailed credenciales_invalidas), demo)
   \<and> login ModelBackend demo_check_password 11 8 demo ''alice'' ''guess'' =
       (Inl (AuthenticationFailed credenciales_invalidas), demo)"
proof -
  have h: "get_by_natural_key demo ''mallory'' = None"
          "get_by_natural_key demo ''alice'' = Some alice"
          "\<not> demo_check_password ''guess'' (password alice)"
    by (simp_all add: get_by_natural_key_def demo_defs)
  show ?thesis
    using login_failure_indistinguishable
            [where st = demo and check_password = demo_check_password
               and unknown_name = "''mallory''" and known_name = "''alice''" and usr = alice
               and wrong_pw = "''guess''" and any_pw = "''guess''" and backend = ModelBackend
               and now = 10 and new_jti = 7 and now' = 11 and new_jti' = 8, OF h] h
    by simp
qed

text \<open>
  C7. With the backend in force, a deactivated principal who supplies the right
  password gets the same failure as an unknown user: \<open>authenticate\<close> has already
  rejected the inactive user, so the branch of \<open>login\<close> that raises
  \<open>Usuario inactivo\<close> is not reached.
\<close>

theorem login_inactive_account_example:
  "get_by_natural_key demo ''bob'' = Some bob
   \<and> demo_check_password ''bobpw'' (password bob)
   \<and> \<not> is_active bob
   \<and> login ModelBackend demo_check_password 10 7 demo ''bob'' ''bobpw'' =
       (Inl (AuthenticationFailed credenciales_invalidas), demo)
   \<and> login ModelBackend demo_check_password 10 7 demo ''bob'' ''bobpw'' =
       login ModelBackend demo_check_password 10 7 demo ''nobody'' ''bobpw''
   \<and> credenciales_invalidas \<noteq> ''Usuario inactivo''"
  by (simp add: login_def authenticate_def get_by_natural_key_def demo_defs
                credenciales_invalidas_def)

end
